theory Spec2Isabelle
  imports Main "HOL-Library.Word"
begin

unbundle bit_operations_syntax

section \<open>Go values\<close>

type_synonym byte = "8 word"

text \<open>
  A call either returns a value or ends in a run-time panic (an index or a slice bound
  out of range).
\<close>

datatype 'a outcome = Panic | Ret 'a

primrec andThen :: "'a outcome \<Rightarrow> ('a \<Rightarrow> 'b outcome) \<Rightarrow> 'b outcome" where
  "andThen Panic f = Panic"
| "andThen (Ret x) f = f x"

text \<open>
  A byte slice is a window on a backing array: \<open>cells\<close> holds the array from the first
  element of the slice up to its capacity, \<open>slen\<close> is the length of the slice. The
  elements of the slice are the first \<open>slen\<close> cells; the nil slice has no cells.
\<close>

record slice =
  cells :: "byte list"
  slen :: nat

definition nil_slice :: slice where
  "nil_slice = \<lparr>cells = [], slen = 0\<rparr>"

definition elems :: "slice \<Rightarrow> byte list" where
  "elems s = take (slen s) (cells s)"

text \<open>\<open>s[i]\<close> panics unless \<open>i < len(s)\<close>.\<close>

definition index :: "slice \<Rightarrow> nat \<Rightarrow> byte outcome" where
  "index s i = (if i < slen s then Ret (cells s ! i) else Panic)"

text \<open>\<open>s[lo:]\<close> panics unless \<open>0 \<le> lo \<le> len(s)\<close>.\<close>

definition slice_from :: "slice \<Rightarrow> int \<Rightarrow> slice outcome" where
  "slice_from s lo =
     (if 0 \<le> lo \<and> lo \<le> int (slen s)
      then Ret \<lparr>cells = drop (nat lo) (cells s), slen = slen s - nat lo\<rparr>
      else Panic)"

text \<open>\<open>s[:hi]\<close> panics unless \<open>0 \<le> hi \<le> cap(s)\<close>; the capacity, not the length, bounds it.\<close>

definition slice_to :: "slice \<Rightarrow> int \<Rightarrow> slice outcome" where
  "slice_to s hi =
     (if 0 \<le> hi \<and> hi \<le> int (length (cells s))
      then Ret \<lparr>cells = cells s, slen = nat hi\<rparr>
      else Panic)"

text \<open>\<open>s[lo:hi]\<close> panics unless \<open>0 \<le> lo \<le> hi \<le> cap(s)\<close>.\<close>

definition slice_range :: "slice \<Rightarrow> int \<Rightarrow> int \<Rightarrow> slice outcome" where
  "slice_range s lo hi =
     (if 0 \<le> lo \<and> lo \<le> hi \<and> hi \<le> int (length (cells s))
      then Ret \<lparr>cells = drop (nat lo) (cells s), slen = nat (hi - lo)\<rparr>
      else Panic)"

text \<open>
  The built-in \<open>copy(dst, src)\<close> on the caller's buffer \<open>dst\<close>: it copies
  \<open>min(len(dst), len(src))\<close> elements, returns that count, and the buffer holds the copied
  elements in front of what it held before.
\<close>

definition copy_bytes :: "byte list \<Rightarrow> slice \<Rightarrow> nat \<times> byte list" where
  "copy_bytes dst src =
     (let k = min (length dst) (slen src)
      in (k, take k (elems src) @ drop k dst))"

section \<open>Addresses\<close>

text \<open>
  \<open>net.IP\<close> and \<open>net.HardwareAddr\<close> are byte slices that may be nil; \<open>None\<close> is nil.
\<close>

type_synonym IP = "byte list option"
type_synonym HardwareAddr = "byte list option"

record UDPAddr =
  IP :: IP
  Port :: int

definition ip_bytes :: "IP \<Rightarrow> byte list" where
  "ip_bytes ip = (case ip of None \<Rightarrow> [] | Some bs \<Rightarrow> bs)"

definition v4InV6Prefix :: "byte list" where
  "v4InV6Prefix = [0, 0, 0, 0, 0, 0, 0, 0, 0, 0, 0xff, 0xff]"

text \<open>
  \<open>net.IP.Equal\<close> of the Go standard library: equal bytes, or a 4-byte address against
  its 16-byte IPv4-in-IPv6 form.
\<close>

definition Equal :: "IP \<Rightarrow> IP \<Rightarrow> bool" where
  "Equal ip x =
     (let a = ip_bytes ip; b = ip_bytes x
      in if length a = length b then a = b
         else if length a = 4 \<and> length b = 16
           then take 12 b = v4InV6Prefix \<and> a = drop 12 b
         else if length a = 16 \<and> length b = 4
           then take 12 a = v4InV6Prefix \<and> drop 12 a = b
         else False)"

text \<open>\<open>udpMatch\<close> (conn_unix.go, lines 97-105); \<open>addr\<close> is never nil at its call site.\<close>

definition udpMatch :: "UDPAddr \<Rightarrow> UDPAddr option \<Rightarrow> bool" where
  "udpMatch addr bound =
     (case bound of
        None \<Rightarrow> True
      | Some bd \<Rightarrow>
          if IP bd \<noteq> None \<and> \<not> Equal (IP bd) (IP addr) then False
          else Port bd = Port addr)"

section \<open>Errors\<close>

text \<open>
  \<open>ErrUDPAddrIsRequired\<close> and \<open>ErrHWAddrNotFound\<close> are the package's own errors
  (lines 45-51), \<open>EOF\<close> is \<open>io.EOF\<close>, \<open>ErrNoRoute\<close> is the error built at line 244,
  and \<open>ErrExternal\<close> stands for the errors of the raw socket, of netlink and of the
  ARP client, which this code only hands on.
\<close>

datatype error =
    EOF
  | ErrUDPAddrIsRequired
  | ErrHWAddrNotFound
  | ErrNoRoute IP
  | ErrExternal string

section \<open>The buffer of the uio library\<close>

text \<open>
  \<open>uio.NewBigEndianBuffer(pkt)\<close> wraps the slice \<open>pkt\<close>; the buffer is the slice of the
  bytes not yet consumed. \<open>Has(n)\<close> is \<open>len(data) >= n\<close>. \<open>Consume(n)\<close> returns nil and
  leaves the buffer alone when \<open>Has(n)\<close> fails, and otherwise returns \<open>data[:n]\<close> and
  keeps \<open>data[n:]\<close>; a negative \<open>n\<close> passes \<open>Has\<close> and panics in the slice expression.
\<close>

type_synonym Buffer = slice

definition NewBigEndianBuffer :: "slice \<Rightarrow> Buffer" where
  "NewBigEndianBuffer pkt = pkt"

definition Has :: "Buffer \<Rightarrow> int \<Rightarrow> bool" where
  "Has buf n = (int (slen buf) \<ge> n)"

definition Data :: "Buffer \<Rightarrow> slice" where
  "Data buf = buf"

definition Consume :: "Buffer \<Rightarrow> int \<Rightarrow> (slice \<times> Buffer) outcome" where
  "Consume buf n =
     (if \<not> Has buf n then Ret (nil_slice, buf)
      else andThen (slice_to buf n) (\<lambda>rval.
           andThen (slice_from buf n) (\<lambda>rest.
           Ret (rval, rest))))"

section \<open>Header views\<close>

text \<open>
  The constants and the header views \<open>ipv4\<close> and \<open>udp\<close> of this package are not under
  src/. The spec gives the standard IPv4 header of at least 20 bytes (version/IHL, total
  length, protocol, source and destination address) followed by the 8-byte UDP header
  (source port, destination port, length, checksum). A view is a byte slice (line 132
  converts \<open>buf.Data()\<close> to one), and an accessor reads its field at the field's standard
  offset in the slice it is given: a single byte by indexing, a 16-bit field from the
  slice cut at the field's offset, an address as the 4-byte sub-slice.
\<close>

text \<open>Modelled from the spec: the constant \<open>ipv4MinimumSize\<close>, the fixed 20 bytes.\<close>

definition ipv4MinimumSize :: int where
  "ipv4MinimumSize = 20"

text \<open>
  Modelled from the spec: the constant \<open>ipv4MaximumHeaderSize\<close>; the header length is a
  4-bit count of 32-bit words, so at most 60 bytes.
\<close>

definition ipv4MaximumHeaderSize :: int where
  "ipv4MaximumHeaderSize = 60"

text \<open>Modelled from the spec: the constant \<open>udpMinimumSize\<close>, the 8-byte UDP header.\<close>

definition udpMinimumSize :: int where
  "udpMinimumSize = 8"

text \<open>Modelled from the spec: the constant \<open>udpProtocolNumber\<close>, protocol UDP.\<close>

definition udpProtocolNumber :: byte where
  "udpProtocolNumber = 17"

text \<open>
  \<open>binary.BigEndian.Uint16\<close> of the Go standard library: it checks that the slice has
  two bytes and joins them, the first one high.
\<close>

definition be16 :: "byte \<Rightarrow> byte \<Rightarrow> 16 word" where
  "be16 hi lo = ucast lo OR push_bit 8 (ucast hi)"

definition Uint16 :: "slice \<Rightarrow> 16 word outcome" where
  "Uint16 b =
     andThen (index b 1) (\<lambda>lo.
     andThen (index b 0) (\<lambda>hi.
     Ret (be16 hi lo)))"

text \<open>
  Modelled from the spec: the accessor \<open>ipv4.headerLength\<close>, the low nibble of the first
  byte in 32-bit words, as the 8-bit number of bytes.
\<close>

definition headerLength :: "slice \<Rightarrow> byte outcome" where
  "headerLength b = andThen (index b 0) (\<lambda>v. Ret ((v AND 0xf) * 4))"

text \<open>Modelled from the spec: the accessor \<open>ipv4.transportProtocol\<close>, the byte at offset 9.\<close>

definition transportProtocol :: "slice \<Rightarrow> byte outcome" where
  "transportProtocol b = index b 9"

text \<open>
  Modelled from the spec: the accessor \<open>ipv4.totalLength\<close>, the 16-bit field at offset 2.
\<close>

definition totalLength :: "slice \<Rightarrow> 16 word outcome" where
  "totalLength b = andThen (slice_from b 2) Uint16"

text \<open>
  Modelled from the spec: the accessor \<open>ipv4.payloadLength\<close>, the total length minus the
  header length. Line 163 converts its result to \<open>int\<close>, so it is a machine integer of
  its own: the 16 bits of the total length, where the subtraction wraps around.
\<close>

definition payloadLength :: "slice \<Rightarrow> 16 word outcome" where
  "payloadLength b =
     andThen (totalLength b) (\<lambda>tlen.
     andThen (headerLength b) (\<lambda>hl.
     Ret (tlen - ucast hl)))"

text \<open>
  Modelled from the spec: the accessor \<open>ipv4.sourceAddress\<close>, the four bytes from
  offset 12.
\<close>

definition sourceAddress :: "slice \<Rightarrow> IP outcome" where
  "sourceAddress b = andThen (slice_range b 12 16) (\<lambda>a. Ret (Some (elems a)))"

text \<open>
  Modelled from the spec: the accessor \<open>ipv4.destinationAddress\<close>, the four bytes from
  offset 16.
\<close>

definition destinationAddress :: "slice \<Rightarrow> IP outcome" where
  "destinationAddress b = andThen (slice_range b 16 20) (\<lambda>a. Ret (Some (elems a)))"

text \<open>
  Modelled from the spec: the accessor \<open>udp.sourcePort\<close>, the 16-bit field at offset 0.
\<close>

definition sourcePort :: "slice \<Rightarrow> 16 word outcome" where
  "sourcePort b = andThen (slice_from b 0) Uint16"

text \<open>
  Modelled from the spec: the accessor \<open>udp.destinationPort\<close>, the 16-bit field at
  offset 2.
\<close>

definition destinationPort :: "slice \<Rightarrow> 16 word outcome" where
  "destinationPort b = andThen (slice_from b 2) Uint16"

section \<open>The raw socket\<close>

text \<open>
  The raw packet socket is an external collaborator. Its reads are a script: each entry
  is what one call of its \<open>ReadFrom\<close> answers, a frame on the wire and an error or nil.
  A read into a buffer of \<open>size\<close> bytes stores the first \<open>size\<close> bytes of the frame and
  returns their count. When the script is used up the next read blocks for ever. Its
  \<open>WriteTo\<close> answers with \<open>writeResult\<close>, and \<open>sent\<close> records every frame handed to it.
\<close>

record readResult =
  rd_frame :: "byte list"
  rd_err :: "error option"

record RawConn =
  incoming :: "readResult list"
  writeResult :: "byte list \<Rightarrow> HardwareAddr \<Rightarrow> int \<times> error option"
  sent :: "(byte list \<times> HardwareAddr) list"

text \<open>
  \<open>pkt := make([]byte, size)\<close> followed by the read: the count, the buffer after the read
  (zero beyond the stored bytes) and the error.
\<close>

definition rawReadFrom :: "readResult \<Rightarrow> nat \<Rightarrow> nat \<times> slice \<times> error option" where
  "rawReadFrom r sz =
     (let stored = take sz (rd_frame r)
      in (length stored,
          \<lparr>cells = stored @ replicate (sz - length stored) 0, slen = sz\<rparr>,
          rd_err r))"

definition rawWriteTo :: "RawConn \<Rightarrow> byte list \<Rightarrow> HardwareAddr \<Rightarrow> (int \<times> error option) \<times> RawConn" where
  "rawWriteTo c packet mac = (writeResult c packet mac, c\<lparr>sent := sent c @ [(packet, mac)]\<rparr>)"

section \<open>The connection\<close>

record BroadcastRawUDPConn =
  PacketConn :: RawConn
  boundAddr :: "UDPAddr option"

definition BroadcastMac :: HardwareAddr where
  "BroadcastMac = Some [255, 255, 255, 255, 255, 255]"

text \<open>
  What \<open>ReadFrom\<close> returns: the count, the caller's buffer after the call, the sender
  and the error.
\<close>

type_synonym readReturn = "int \<times> byte list \<times> UDPAddr option \<times> error option"

text \<open>
  One iteration of the loop of \<open>ReadFrom\<close> (lines 116-164) on the answer \<open>r\<close> of the raw
  socket: \<open>Ret None\<close> is \<open>continue\<close>, \<open>Ret (Some x)\<close> is \<open>return x\<close>.
\<close>

definition ReadFrom_iter :: "UDPAddr option \<Rightarrow> byte list \<Rightarrow> readResult \<Rightarrow> readReturn option outcome" where
  "ReadFrom_iter bound b r =
     (let ipHdrMaxLen = ipv4MaximumHeaderSize;
          udpHdrLen = udpMinimumSize;
          (n, pkt, err) = rawReadFrom r (nat (ipHdrMaxLen + udpHdrLen + int (length b)))
      in if err \<noteq> None then Ret (Some (0, b, None, err))
         else if n = 0 then Ret (Some (0, b, None, Some EOF))
         else
           andThen (slice_to pkt (int n)) (\<lambda>pkt.
           let buf = NewBigEndianBuffer pkt in
           if \<not> Has buf ipv4MinimumSize then Ret None else
           andThen (headerLength (Data buf)) (\<lambda>hl.
           if \<not> Has buf (uint hl) then Ret None else
           andThen (Consume buf (uint hl)) (\<lambda>(ipHdr, buf).
           andThen (transportProtocol ipHdr) (\<lambda>proto.
           if proto \<noteq> udpProtocolNumber then Ret None else
           if \<not> Has buf udpHdrLen then Ret None else
           andThen (Consume buf udpHdrLen) (\<lambda>(udpHdr, buf).
           andThen (destinationAddress ipHdr) (\<lambda>dstIP.
           andThen (destinationPort udpHdr) (\<lambda>dstPort.
           let addr = \<lparr>IP = dstIP, Port = uint dstPort\<rparr> in
           if \<not> udpMatch addr bound then Ret None else
           andThen (sourceAddress ipHdr) (\<lambda>srcIP.
           andThen (sourcePort udpHdr) (\<lambda>srcPort.
           let srcAddr = \<lparr>IP = srcIP, Port = uint srcPort\<rparr> in
           andThen (payloadLength ipHdr) (\<lambda>pl.
           let dhcpLen = uint pl - udpHdrLen in
           andThen (Consume buf dhcpLen) (\<lambda>(payload, buf).
           let (k, b') = copy_bytes b payload in
           Ret (Some (int k, b', Some srcAddr, None))))))))))))))"

text \<open>
  The loop: it reads until an iteration returns or panics. \<open>None\<close> is a call that never
  returns, blocked in a read of the raw socket.
\<close>

fun ReadFrom_loop ::
  "UDPAddr option \<Rightarrow> byte list \<Rightarrow> readResult list \<Rightarrow> (readReturn outcome \<times> readResult list) option" where
  "ReadFrom_loop bound b [] = None"
| "ReadFrom_loop bound b (r # rs) =
     (case ReadFrom_iter bound b r of
        Panic \<Rightarrow> Some (Panic, rs)
      | Ret None \<Rightarrow> ReadFrom_loop bound b rs
      | Ret (Some x) \<Rightarrow> Some (Ret x, rs))"

text \<open>The connection whose raw socket has the reads \<open>rs\<close> still to answer.\<close>

definition withIncoming :: "BroadcastRawUDPConn \<Rightarrow> readResult list \<Rightarrow> BroadcastRawUDPConn" where
  "withIncoming upc rs = upc\<lparr>PacketConn := (PacketConn upc)\<lparr>incoming := rs\<rparr>\<rparr>"

text \<open>\<open>BroadcastRawUDPConn.ReadFrom\<close> (lines 111-166), with the connection after the call.\<close>

definition ReadFrom :: "BroadcastRawUDPConn \<Rightarrow> byte list \<Rightarrow> (readReturn outcome \<times> BroadcastRawUDPConn) option" where
  "ReadFrom upc b =
     (case ReadFrom_loop (boundAddr upc) b (incoming (PacketConn upc)) of
        None \<Rightarrow> None
      | Some (res, rest) \<Rightarrow> Some (res, withIncoming upc rest))"

section \<open>The framer\<close>

definition put16 :: "16 word \<Rightarrow> byte list" where
  "put16 w = [ucast (drop_bit 8 w), ucast w]"

text \<open>The four bytes an address fills in the header: zero when it is not an IPv4 address.\<close>

definition addr4 :: "IP \<Rightarrow> byte list" where
  "addr4 ip =
     (let a = ip_bytes ip
      in if length a = 4 then a
         else if length a = 16 \<and> take 12 a = v4InV6Prefix then drop 12 a
         else [0, 0, 0, 0])"

text \<open>
  Modelled from the spec: \<open>udp4pkt\<close> of this package is not under src/. The spec has the
  payload wrapped in a 20-byte IPv4 header (version/IHL, total length, protocol UDP,
  source and destination address) and an 8-byte UDP header (source port, destination
  port, length, checksum), with the total and length fields computed and the checksums
  allowed to be zero; the fields the spec does not name are zero here. The spec frames
  with the bound address as source and says nothing of a connection without one: here
  its header carries the zero address and port 0, and no result below rests on that.
\<close>

definition udp4pkt :: "byte list \<Rightarrow> UDPAddr \<Rightarrow> UDPAddr option \<Rightarrow> byte list" where
  "udp4pkt packet dest src =
     (let ipLen = 20;
          udpLen = 8;
          srcIP = (case src of None \<Rightarrow> None | Some a \<Rightarrow> IP a);
          srcPort = (case src of None \<Rightarrow> 0 | Some a \<Rightarrow> Port a)
      in [0x45, 0] @ put16 (word_of_nat (ipLen + udpLen + length packet))
         @ [0, 0, 0, 0, 0, udpProtocolNumber, 0, 0]
         @ addr4 srcIP @ addr4 (IP dest)
         @ put16 (word_of_int srcPort) @ put16 (word_of_int (Port dest))
         @ put16 (word_of_nat (udpLen + length packet)) @ [0, 0]
         @ packet)"

text \<open>
  The destination argument of \<open>WriteTo\<close> is a \<open>net.Addr\<close>: a \<open>*net.UDPAddr\<close> or
  anything else.
\<close>

datatype Addr = PtrUDPAddr UDPAddr | OtherAddr

text \<open>\<open>BroadcastRawUDPConn.WriteTo\<close> (lines 173-184), with the connection after the call.\<close>

definition BroadcastRawUDPConn_WriteTo ::
  "BroadcastRawUDPConn \<Rightarrow> byte list \<Rightarrow> Addr \<Rightarrow> (int \<times> error option) \<times> BroadcastRawUDPConn" where
  "BroadcastRawUDPConn_WriteTo upc b addr =
     (case addr of
        OtherAddr \<Rightarrow> ((0, Some ErrUDPAddrIsRequired), upc)
      | PtrUDPAddr udpAddr \<Rightarrow>
          let packet = udp4pkt b udpAddr (boundAddr upc);
              (res, c) = rawWriteTo (PacketConn upc) packet BroadcastMac
          in (res, upc\<lparr>PacketConn := c\<rparr>))"

section \<open>Address resolution\<close>

text \<open>
  The kernel neighbour table, the route lookup, the interface table and the ARP client
  are external collaborators: \<open>NetEnv\<close> holds what each of them answers, and every
  function below returns, beside its result, the calls it made to them, in order.
\<close>

datatype AddrFamily = FAMILY_ALL | FAMILY_V4 | FAMILY_V6

datatype NeighState = NUD_NONE | NUD_INCOMPLETE | NUD_REACHABLE | NUD_STALE

record Ndmsg =
  Family :: AddrFamily
  State :: NeighState

record Neigh =
  Neigh_IP :: IP
  Neigh_HardwareAddr :: HardwareAddr

record Route =
  LinkIndex :: int

record Interface =
  Index :: int
  Name :: string

record NetEnv =
  NeighListExecute :: "Ndmsg \<Rightarrow> error + Neigh list"
  RouteGet :: "IP \<Rightarrow> error + Route list"
  InterfaceByIndex :: "int \<Rightarrow> error + Interface"
  Dial :: "Interface \<Rightarrow> error option"
  Resolve :: "Interface \<Rightarrow> IP \<Rightarrow> HardwareAddr \<times> error option"

datatype call =
    CallNeighListExecute Ndmsg
  | CallRouteGet IP
  | CallInterfaceByIndex int
  | CallDial Interface
  | CallResolve Interface IP

text \<open>\<open>arpResolve\<close> (lines 237-257).\<close>

definition arpResolve :: "NetEnv \<Rightarrow> IP \<Rightarrow> (HardwareAddr \<times> error option) \<times> call list" where
  "arpResolve env dest =
     (case RouteGet env dest of
        Inl err \<Rightarrow> ((None, Some err), [CallRouteGet dest])
      | Inr routes \<Rightarrow>
          (case routes of
             [] \<Rightarrow> ((None, Some (ErrNoRoute dest)), [CallRouteGet dest])
           | route0 # _ \<Rightarrow>
               (case InterfaceByIndex env (LinkIndex route0) of
                  Inl err \<Rightarrow>
                    ((None, Some err),
                     [CallRouteGet dest, CallInterfaceByIndex (LinkIndex route0)])
                | Inr ifc \<Rightarrow>
                    (case Dial env ifc of
                       Some err \<Rightarrow>
                         ((None, Some err),
                          [CallRouteGet dest, CallInterfaceByIndex (LinkIndex route0),
                           CallDial ifc])
                     | None \<Rightarrow>
                         (Resolve env ifc dest,
                          [CallRouteGet dest, CallInterfaceByIndex (LinkIndex route0),
                           CallDial ifc, CallResolve ifc dest])))))"

text \<open>The loop over the neighbour list (lines 228-232): the first entry that passes.\<close>

fun neighLoop :: "IP \<Rightarrow> Neigh list \<Rightarrow> HardwareAddr option" where
  "neighLoop ip [] = None"
| "neighLoop ip (neigh # rest) =
     (if Equal ip (Neigh_IP neigh) \<and> Neigh_HardwareAddr neigh \<noteq> None
      then Some (Neigh_HardwareAddr neigh)
      else neighLoop ip rest)"

text \<open>\<open>getHwAddr\<close> (lines 219-235).\<close>

definition getHwAddr :: "NetEnv \<Rightarrow> IP \<Rightarrow> (HardwareAddr \<times> error option) \<times> call list" where
  "getHwAddr env ip =
     (let msg = \<lparr>Family = FAMILY_V4, State = NUD_REACHABLE\<rparr>
      in case NeighListExecute env msg of
           Inl err \<Rightarrow> ((None, Some err), [CallNeighListExecute msg])
         | Inr neighList \<Rightarrow>
             (case neighLoop ip neighList of
                Some hw \<Rightarrow> ((hw, None), [CallNeighListExecute msg])
              | None \<Rightarrow>
                  (let (res, calls) = arpResolve env ip
                   in (res, CallNeighListExecute msg # calls))))"

text \<open>
  \<open>UnicastRawUDPConn.WriteTo\<close> (lines 202-216); the unicast connection is its embedded
  broadcast connection.
\<close>

definition UnicastRawUDPConn_WriteTo ::
  "NetEnv \<Rightarrow> BroadcastRawUDPConn \<Rightarrow> byte list \<Rightarrow> Addr
     \<Rightarrow> ((int \<times> error option) \<times> BroadcastRawUDPConn) \<times> call list" where
  "UnicastRawUDPConn_WriteTo env upc b addr =
     (case addr of
        OtherAddr \<Rightarrow> (((0, Some ErrUDPAddrIsRequired), upc), [])
      | PtrUDPAddr udpAddr \<Rightarrow>
          let packet = udp4pkt b udpAddr (boundAddr upc);
              ((dstMac, err), calls) = getHwAddr env (IP udpAddr)
          in if err \<noteq> None then (((0, Some ErrHWAddrNotFound), upc), calls)
             else
               let (res, c) = rawWriteTo (PacketConn upc) packet dstMac
               in ((res, upc\<lparr>PacketConn := c\<rparr>), calls))"

section \<open>Frames on the wire\<close>

text \<open>
  For stating what \<open>ReadFrom\<close> does with a frame: the bytes of the frame that the read
  stores in the packet buffer, and the header fields of those bytes by their offsets.
\<close>

definition stored :: "byte list \<Rightarrow> readResult \<Rightarrow> byte list" where
  "stored b r =
     take (nat (ipv4MaximumHeaderSize + udpMinimumSize + int (length b))) (rd_frame r)"

definition wireHeaderLength :: "byte list \<Rightarrow> nat" where
  "wireHeaderLength f = unat ((f ! 0 AND 0xf) * 4)"

definition wireTotalLength :: "byte list \<Rightarrow> nat" where
  "wireTotalLength f = unat (be16 (f ! 2) (f ! 3))"

definition wireSource :: "byte list \<Rightarrow> UDPAddr" where
  "wireSource f =
     (let hl = wireHeaderLength f
      in \<lparr>IP = Some (take 4 (drop 12 f)), Port = uint (be16 (f ! hl) (f ! (hl + 1)))\<rparr>)"

definition wireDestination :: "byte list \<Rightarrow> UDPAddr" where
  "wireDestination f =
     (let hl = wireHeaderLength f
      in \<lparr>IP = Some (take 4 (drop 16 f)), Port = uint (be16 (f ! (hl + 2)) (f ! (hl + 3)))\<rparr>)"

section \<open>Example frames\<close>

text \<open>
  The frame of the spec's end-to-end scenario and its variants: an IPv4 header from
  10.0.0.1 to 255.255.255.255 with the given first byte, total length and protocol, a
  UDP header from port 67 to port 68, and the payload \<open>DHCPACK!\<close>.
\<close>

definition ipHeader :: "byte \<Rightarrow> 16 word \<Rightarrow> byte \<Rightarrow> byte list" where
  "ipHeader vihl tlen proto =
     [vihl, 0] @ put16 tlen @ [0, 0, 0, 0, 64, proto, 0, 0, 10, 0, 0, 1, 255, 255, 255, 255]"

definition udpHeader :: "byte list" where
  "udpHeader = [0, 67, 0, 68, 0, 16, 0, 0]"

definition dhcpAck :: "byte list" where
  "dhcpAck = [68, 72, 67, 80, 65, 67, 75, 33]"

text \<open>The scenario's frame, followed by six bytes of padding.\<close>

definition paddedAckFrame :: "byte list" where
  "paddedAckFrame = ipHeader 0x45 36 17 @ udpHeader @ dhcpAck @ [0, 0, 0, 0, 0, 0]"

text \<open>A frame that declares 44 bytes and carries 36.\<close>

definition underfullFrame :: "byte list" where
  "underfullFrame = ipHeader 0x45 44 17 @ udpHeader @ dhcpAck"

text \<open>A frame whose total length is its header length: no room for the UDP header.\<close>

definition shortTotalFrame :: "byte list" where
  "shortTotalFrame = ipHeader 0x45 20 17 @ udpHeader @ dhcpAck"

text \<open>A TCP frame whose header-length nibble is 0.\<close>

definition zeroIHLFrame :: "byte list" where
  "zeroIHLFrame = ipHeader 0x40 36 6 @ udpHeader @ dhcpAck"

definition received :: "byte list \<Rightarrow> readResult" where
  "received f = \<lparr>rd_frame = f, rd_err = None\<rparr>"

text \<open>
  A connection bound to port 68 on any IP, on a raw socket with the reads \<open>rs\<close> to come
  that reports every frame as written in full.
\<close>

definition connOn :: "readResult list \<Rightarrow> BroadcastRawUDPConn" where
  "connOn rs =
     \<lparr>PacketConn =
        \<lparr>incoming = rs, writeResult = (\<lambda>p a. (int (length p), None)), sent = []\<rparr>,
      boundAddr = Some \<lparr>IP = None, Port = 68\<rparr>\<rparr>"

definition buffer16 :: "byte list" where
  "buffer16 = replicate 16 0"

text \<open>
  A peer at 10.0.0.9, two neighbour entries that do not resolve it (another host, and the
  peer without a link address), and three environments: one whose neighbour table holds
  the peer after those two, one with no route to it, and one where the ARP exchange on
  the interface of the route answers.
\<close>

definition peerIP :: IP where
  "peerIP = Some [10, 0, 0, 9]"

definition peerMac :: HardwareAddr where
  "peerMac = Some [2, 0, 0, 0, 0, 9]"

definition peer :: UDPAddr where
  "peer = \<lparr>IP = peerIP, Port = 67\<rparr>"

definition eth0 :: Interface where
  "eth0 = \<lparr>Index = 2, Name = ''eth0''\<rparr>"


definition otherNeighbours :: "Neigh list" where
  "otherNeighbours =
     [\<lparr>Neigh_IP = Some [10, 0, 0, 7], Neigh_HardwareAddr = Some [2, 0, 0, 0, 0, 7]\<rparr>,
      \<lparr>Neigh_IP = peerIP, Neigh_HardwareAddr = None\<rparr>]"

definition envCached :: NetEnv where
  "envCached =
     \<lparr>NeighListExecute = (\<lambda>m. Inr (otherNeighbours @ [\<lparr>Neigh_IP = peerIP, Neigh_HardwareAddr = peerMac\<rparr>])),
      RouteGet = (\<lambda>ip. Inl (ErrExternal ''route lookup'')),
      InterfaceByIndex = (\<lambda>i. Inl (ErrExternal ''no such interface'')),
      Dial = (\<lambda>ifc. Some (ErrExternal ''dial'')),
      Resolve = (\<lambda>ifc ip. (None, Some (ErrExternal ''timeout'')))\<rparr>"

definition envNoRoute :: NetEnv where
  "envNoRoute = envCached\<lparr>NeighListExecute := (\<lambda>m. Inr otherNeighbours), RouteGet := (\<lambda>ip. Inr [])\<rparr>"

definition envArp :: NetEnv where
  "envArp =
     \<lparr>NeighListExecute = (\<lambda>m. Inr otherNeighbours),
      RouteGet = (\<lambda>ip. Inr [\<lparr>LinkIndex = 2\<rparr>]),
      InterfaceByIndex = (\<lambda>i. if i = 2 then Inr eth0 else Inl (ErrExternal ''no such interface'')),
      Dial = (\<lambda>ifc. None),
      Resolve = (\<lambda>ifc ip. (peerMac, None))\<rparr>"

text \<open>The connection after its raw socket was handed \<open>packet\<close> for \<open>mac\<close>.\<close>

definition afterWrite :: "BroadcastRawUDPConn \<Rightarrow> byte list \<Rightarrow> HardwareAddr \<Rightarrow> BroadcastRawUDPConn" where
  "afterWrite upc packet mac =
     upc\<lparr>PacketConn := (PacketConn upc)\<lparr>sent := sent (PacketConn upc) @ [(packet, mac)]\<rparr>\<rparr>"

section \<open>Bound-pattern matching\<close>

text \<open>
  C2. An absent bound pattern matches every destination. A pattern whose IP field is nil
  matches exactly the destinations on its port, whatever their IP. A pattern with a
  non-nil IP and a port different from the destination's never matches, whatever the
  IPs. In particular the pattern (nil, 68) matches every IP on port 68 and rejects port
  67, and the pattern (10.0.0.5, 68) rejects the destination 10.0.0.6:68.
\<close>

theorem udpMatch_semantics:
  "udpMatch addr None
   \<and> (IP bd = None \<longrightarrow> udpMatch addr (Some bd) = (Port bd = Port addr))
   \<and> (IP bd' \<noteq> None \<and> Port bd' \<noteq> Port addr \<longrightarrow> \<not> udpMatch addr (Some bd'))
   \<and> udpMatch \<lparr>IP = ip, Port = 68\<rparr> (Some \<lparr>IP = None, Port = 68\<rparr>)
   \<and> \<not> udpMatch \<lparr>IP = ip, Port = 67\<rparr> (Some \<lparr>IP = None, Port = 68\<rparr>)
   \<and> \<not> udpMatch \<lparr>IP = Some [10, 0, 0, 6], Port = 68\<rparr>
         (Some \<lparr>IP = Some [10, 0, 0, 5], Port = 68\<rparr>)"
  by (simp add: udpMatch_def Equal_def ip_bytes_def)

theorem udpMatch_semantics_witness:
  "IP \<lparr>IP = None, Port = 68\<rparr> = None
   \<and> udpMatch \<lparr>IP = Some [192, 168, 1, 7], Port = 68\<rparr> (Some \<lparr>IP = None, Port = 68\<rparr>)
   \<and> IP \<lparr>IP = Some [10, 0, 0, 5], Port = 67\<rparr> \<noteq> None
   \<and> Port \<lparr>IP = Some [10, 0, 0, 5], Port = 67\<rparr> \<noteq> Port \<lparr>IP = Some [192, 168, 1, 7], Port = 68\<rparr>
   \<and> \<not> udpMatch \<lparr>IP = Some [192, 168, 1, 7], Port = 68\<rparr>
         (Some \<lparr>IP = Some [10, 0, 0, 5], Port = 67\<rparr>)"
  using udpMatch_semantics [of "\<lparr>IP = Some [192, 168, 1, 7], Port = 68\<rparr>"
      "\<lparr>IP = None, Port = 68\<rparr>" "\<lparr>IP = Some [10, 0, 0, 5], Port = 67\<rparr>" None]
  by simp

section \<open>The receive path\<close>

subsection \<open>Slices and the buffer\<close>

lemma stored_take: "stored b r = take (68 + length b) (rd_frame r)"
  by (simp add: stored_def ipv4MaximumHeaderSize_def udpMinimumSize_def nat_add_distrib)

lemma Consume_ok:
  "0 \<le> k \<Longrightarrow> nat k \<le> n \<Longrightarrow> n \<le> length cs \<Longrightarrow>
   Consume \<lparr>cells = cs, slen = n\<rparr> k =
     Ret (\<lparr>cells = cs, slen = nat k\<rparr>, \<lparr>cells = drop (nat k) cs, slen = n - nat k\<rparr>)"
  by (auto simp add: Consume_def Has_def slice_to_def slice_from_def)

lemma Consume_short:
  "int n < k \<Longrightarrow> Consume \<lparr>cells = cs, slen = n\<rparr> k = Ret (nil_slice, \<lparr>cells = cs, slen = n\<rparr>)"
  by (simp add: Consume_def Has_def)

lemma Consume_negative:
  "k < 0 \<Longrightarrow> Consume \<lparr>cells = cs, slen = n\<rparr> k = Panic"
  by (simp add: Consume_def Has_def slice_to_def)

lemma Uint16_from:
  assumes "j = int k" "k + 2 \<le> m" "m \<le> length cs" "cs ! k = x" "cs ! (k + 1) = y"
  shows "andThen (slice_from \<lparr>cells = cs, slen = m\<rparr> j) Uint16 = Ret (be16 x y)"
  using assms by (simp add: slice_from_def Uint16_def index_def)

lemma nth_drop_append:
  "k + i < length f \<Longrightarrow> drop k (f @ zs) ! i = f ! (k + i)"
  by (auto simp add: nth_append)

subsection \<open>Word arithmetic of the payload length\<close>

lemma uint_ucast_8_16: "uint (ucast (h::8 word) :: 16 word) = uint h"
  by (simp add: uint_up_ucast is_up)

lemma unat_ucast_8_16: "unat (ucast (h::8 word) :: 16 word) = unat h"
proof -
  have "unat h < 2 ^ 8" using unsigned_less [of h] by simp
  then have "unat h < 2 ^ 16" by simp
  then show ?thesis by (simp add: unsigned_ucast_eq take_bit_nat_eq_self)
qed

lemma uint_payload:
  assumes "unat (h::8 word) \<le> unat (t::16 word)"
  shows "uint (t - ucast h) = int (unat t) - int (unat h)"
proof -
  have "(ucast h :: 16 word) \<le> t"
    using assms by (simp add: word_le_nat_alt unat_ucast_8_16)
  then have "uint (t - ucast h) = uint t - uint (ucast h :: 16 word)"
    by (simp add: uint_sub_if' word_le_def)
  then show ?thesis by (simp add: uint_ucast_8_16)
qed

subsection \<open>One iteration on a frame that passes the header checks\<close>

lemma payloadLength_window:
  assumes "9 < hl" "hl \<le> length f" "cs = f @ zs"
  shows "payloadLength \<lparr>cells = cs, slen = hl\<rparr> =
     Ret (be16 (f ! 2) (f ! 3) - ucast ((f ! 0 AND 0xf) * 4))"
proof -
  have el: "i < length f \<Longrightarrow> cs ! i = f ! i" for i using assms(3) by (simp add: nth_append)
  have t: "totalLength \<lparr>cells = cs, slen = hl\<rparr> = Ret (be16 (f ! 2) (f ! 3))"
    unfolding totalLength_def
  proof (rule Uint16_from [where k = 2])
    show "cs ! 2 = f ! 2" using assms(1,2) el [of 2] by simp
    show "cs ! (2 + 1) = f ! 3" using assms(1,2) el [of 3] by simp
  qed (use assms in auto)
  have e0: "cs ! 0 = f ! 0" using assms by (cases f) simp_all
  have h: "headerLength \<lparr>cells = cs, slen = hl\<rparr> = Ret ((f ! 0 AND 0xf) * 4)"
    using assms(1) e0 by (simp add: headerLength_def index_def)
  show ?thesis by (simp add: payloadLength_def t h)
qed


lemma ReadFrom_iter_parsed:
  assumes err: "rd_err r = None"
    and f: "f = stored b r"
    and len: "20 \<le> length f"
    and hl: "hl = wireHeaderLength f" "9 < hl" "hl + 8 \<le> length f"
    and proto: "f ! 9 = udpProtocolNumber"
    and match: "udpMatch (wireDestination f) bound"
    and cs: "cs = f @ replicate (68 + length b - length f) 0"
  shows "ReadFrom_iter bound b r =
     andThen (Consume \<lparr>cells = drop (hl + 8) cs, slen = length f - (hl + 8)\<rparr>
                (uint (be16 (f ! 2) (f ! 3) - ucast ((f ! 0 AND 0xf) * 4)) - 8))
       (\<lambda>(payload, buf).
          let (k, b') = copy_bytes b payload in
          Ret (Some (int k, b', Some (wireSource f), None)))"
proof -
  have lenf: "length f \<le> 68 + length b" using f by (simp add: stored_take)
  have lcs: "length cs = 68 + length b" using lenf cs by simp
  have el: "i < length f \<Longrightarrow> cs ! i = f ! i" for i using cs by (simp add: nth_append)
  have el2: "k + i < length f \<Longrightarrow> drop k cs ! i = f ! (k + i)" for k i
    unfolding cs by (rule nth_drop_append)
  have rd: "rawReadFrom r (nat (ipv4MaximumHeaderSize + udpMinimumSize + int (length b)))
      = (length f, \<lparr>cells = cs, slen = 68 + length b\<rparr>, None)"
    using f err cs
    by (simp add: rawReadFrom_def stored_def ipv4MaximumHeaderSize_def udpMinimumSize_def
        nat_add_distrib)
  have st: "slice_to \<lparr>cells = cs, slen = 68 + length b\<rparr> (int (length f))
      = Ret \<lparr>cells = cs, slen = length f\<rparr>"
    using lenf lcs by (simp add: slice_to_def)
  have ne: "f \<noteq> []" using len by auto
  have h0: "headerLength \<lparr>cells = cs, slen = length f\<rparr> = Ret ((f ! 0 AND 0xf) * 4)"
    using ne el [of 0] by (simp add: headerLength_def index_def)
  have uh: "uint ((f ! 0 AND 0xf) * 4) = int hl"
    using hl(1) by (simp add: wireHeaderLength_def)
  have c1: "Consume \<lparr>cells = cs, slen = length f\<rparr> (int hl) =
      Ret (\<lparr>cells = cs, slen = hl\<rparr>, \<lparr>cells = drop hl cs, slen = length f - hl\<rparr>)"
    using hl(3) lenf lcs Consume_ok [of "int hl" "length f" cs] by simp
  have tp: "transportProtocol \<lparr>cells = cs, slen = hl\<rparr> = Ret udpProtocolNumber"
    using hl(2) len proto el [of 9] by (simp add: transportProtocol_def index_def)
  have c2: "Consume \<lparr>cells = drop hl cs, slen = length f - hl\<rparr> 8 =
      Ret (\<lparr>cells = drop hl cs, slen = 8\<rparr>,
           \<lparr>cells = drop (hl + 8) cs, slen = length f - (hl + 8)\<rparr>)"
    using hl(3) lenf lcs Consume_ok [of 8 "length f - hl" "drop hl cs"]
    by (simp add: add.commute)
  have da: "destinationAddress \<lparr>cells = cs, slen = hl\<rparr> = Ret (Some (take 4 (drop 16 f)))"
    using len lcs cs by (simp add: destinationAddress_def slice_range_def elems_def)
  have sa: "sourceAddress \<lparr>cells = cs, slen = hl\<rparr> = Ret (Some (take 4 (drop 12 f)))"
    using len lcs cs by (simp add: sourceAddress_def slice_range_def elems_def)
  have dp: "destinationPort \<lparr>cells = drop hl cs, slen = 8\<rparr>
      = Ret (be16 (f ! (hl + 2)) (f ! (hl + 3)))"
    unfolding destinationPort_def
  proof (rule Uint16_from [where k = 2])
    show "drop hl cs ! 2 = f ! (hl + 2)" using hl(3) by (intro el2) simp
    show "drop hl cs ! (2 + 1) = f ! (hl + 3)" using hl(3) el2 [of hl 3] by simp
  qed (use lenf lcs hl(3) in auto)
  have sp: "sourcePort \<lparr>cells = drop hl cs, slen = 8\<rparr> = Ret (be16 (f ! hl) (f ! (hl + 1)))"
    unfolding sourcePort_def
  proof (rule Uint16_from [where k = 0])
    show "drop hl cs ! 0 = f ! hl" using hl(3) el2 [of hl 0] by simp
    show "drop hl cs ! (0 + 1) = f ! (hl + 1)" using hl(3) el2 [of hl 1] by simp
  qed (use lenf lcs hl(3) in auto)
  have m: "udpMatch \<lparr>IP = Some (take 4 (drop 16 f)),
      Port = uint (be16 (f ! (hl + 2)) (f ! (hl + 3)))\<rparr> bound"
    using match hl(1) by (simp add: wireDestination_def Let_def)
  have ws: "wireSource f
      = \<lparr>IP = Some (take 4 (drop 12 f)), Port = uint (be16 (f ! hl) (f ! (hl + 1)))\<rparr>"
    using hl(1) by (simp add: wireSource_def Let_def)
  have pl: "payloadLength \<lparr>cells = cs, slen = hl\<rparr> =
     Ret (be16 (f ! 2) (f ! 3) - ucast ((f ! 0 AND 0xf) * 4))"
    using hl(2,3) cs by (intro payloadLength_window) simp_all
  have has1: "Has \<lparr>cells = cs, slen = length f\<rparr> 20" using len by (simp add: Has_def)
  have has2: "Has \<lparr>cells = cs, slen = length f\<rparr> (int hl)" using hl(3) by (simp add: Has_def)
  have has3: "Has \<lparr>cells = drop hl cs, slen = length f - hl\<rparr> 8"
    using hl(3) by (simp add: Has_def)
  show ?thesis
    unfolding ReadFrom_iter_def Let_def rd
    using ne m
    by (simp add: st h0 uh c1 tp c2 da sa dp sp ws pl has1 has2 has3
        NewBigEndianBuffer_def Data_def ipv4MinimumSize_def udpMinimumSize_def)
qed


lemma ReadFrom_iter_underfull:
  assumes err: "rd_err r = None"
    and f: "f = stored b r"
    and len: "20 \<le> length f"
    and hl: "hl = wireHeaderLength f" "9 < hl" "hl + 8 \<le> length f"
    and proto: "f ! 9 = udpProtocolNumber"
    and match: "udpMatch (wireDestination f) bound"
    and tl: "length f < wireTotalLength f"
  shows "ReadFrom_iter bound b r = Ret (Some (0, b, Some (wireSource f), None))"
proof -
  define cs where "cs = f @ replicate (68 + length b - length f) 0"
  have "unat ((f ! 0 AND 0xf) * 4) \<le> unat (be16 (f ! 2) (f ! 3))"
    using hl(1,3) tl by (simp add: wireHeaderLength_def wireTotalLength_def)
  then have "uint (be16 (f ! 2) (f ! 3) - ucast ((f ! 0 AND 0xf) * 4))
      = int (wireTotalLength f) - int hl"
    using hl(1) by (simp add: uint_payload wireHeaderLength_def wireTotalLength_def)
  then have "int (length f - (hl + 8)) < uint (be16 (f ! 2) (f ! 3) - ucast ((f ! 0 AND 0xf) * 4)) - 8"
    using tl hl(3) by simp
  then have co: "Consume \<lparr>cells = drop (hl + 8) cs, slen = length f - (hl + 8)\<rparr>
      (uint (be16 (f ! 2) (f ! 3) - ucast ((f ! 0 AND 0xf) * 4)) - 8) =
      Ret (nil_slice, \<lparr>cells = drop (hl + 8) cs, slen = length f - (hl + 8)\<rparr>)"
    by (rule Consume_short)
  have cp: "copy_bytes b nil_slice = (0, b)"
    by (simp add: copy_bytes_def nil_slice_def elems_def)
  show ?thesis
    unfolding ReadFrom_iter_parsed [OF err f len hl proto match cs_def] co
    by (simp add: cp)
qed

lemma ReadFrom_iter_negative:
  assumes err: "rd_err r = None"
    and f: "f = stored b r"
    and len: "20 \<le> length f"
    and hl: "hl = wireHeaderLength f" "9 < hl" "hl + 8 \<le> length f"
    and proto: "f ! 9 = udpProtocolNumber"
    and match: "udpMatch (wireDestination f) bound"
    and tl: "hl \<le> wireTotalLength f" "wireTotalLength f < hl + 8"
  shows "ReadFrom_iter bound b r = Panic"
proof -
  define cs where "cs = f @ replicate (68 + length b - length f) 0"
  have "unat ((f ! 0 AND 0xf) * 4) \<le> unat (be16 (f ! 2) (f ! 3))"
    using hl(1) tl by (simp add: wireHeaderLength_def wireTotalLength_def)
  then have "uint (be16 (f ! 2) (f ! 3) - ucast ((f ! 0 AND 0xf) * 4))
      = int (wireTotalLength f) - int hl"
    using hl(1) by (simp add: uint_payload wireHeaderLength_def wireTotalLength_def)
  then have "uint (be16 (f ! 2) (f ! 3) - ucast ((f ! 0 AND 0xf) * 4)) - 8 < 0"
    using tl by simp
  then have co: "Consume \<lparr>cells = drop (hl + 8) cs, slen = length f - (hl + 8)\<rparr>
      (uint (be16 (f ! 2) (f ! 3) - ucast ((f ! 0 AND 0xf) * 4)) - 8) = Panic"
    by (rule Consume_negative)
  show ?thesis
    unfolding ReadFrom_iter_parsed [OF err f len hl proto match cs_def] co
    by simp
qed

subsection \<open>One iteration on a frame that fails a header check, and on a failed read\<close>

lemma ReadFrom_iter_header_checks:
  assumes err: "rd_err r = None"
    and f: "f = stored b r" "f \<noteq> []"
    and hl: "hl = wireHeaderLength f"
  shows "length f < 20 \<Longrightarrow> ReadFrom_iter bound b r = Ret None"
    and "20 \<le> length f \<Longrightarrow> length f < hl \<Longrightarrow> ReadFrom_iter bound b r = Ret None"
    and "20 \<le> length f \<Longrightarrow> hl \<le> length f \<Longrightarrow> hl \<le> 9 \<Longrightarrow> ReadFrom_iter bound b r = Panic"
    and "20 \<le> length f \<Longrightarrow> hl \<le> length f \<Longrightarrow> 9 < hl \<Longrightarrow> f ! 9 \<noteq> udpProtocolNumber
           \<Longrightarrow> ReadFrom_iter bound b r = Ret None"
    and "20 \<le> length f \<Longrightarrow> hl \<le> length f \<Longrightarrow> 9 < hl \<Longrightarrow> length f < hl + 8
           \<Longrightarrow> ReadFrom_iter bound b r = Ret None"
proof -
  define cs where "cs = f @ replicate (68 + length b - length f) 0"
  have lenf: "length f \<le> 68 + length b" using f by (simp add: stored_take)
  have lcs: "length cs = 68 + length b" using lenf cs_def by simp
  have el: "i < length f \<Longrightarrow> cs ! i = f ! i" for i using cs_def by (simp add: nth_append)
  have rd: "rawReadFrom r (nat (ipv4MaximumHeaderSize + udpMinimumSize + int (length b)))
      = (length f, \<lparr>cells = cs, slen = 68 + length b\<rparr>, None)"
    using f err cs_def
    by (simp add: rawReadFrom_def stored_def ipv4MaximumHeaderSize_def udpMinimumSize_def
        nat_add_distrib)
  have st: "slice_to \<lparr>cells = cs, slen = 68 + length b\<rparr> (int (length f))
      = Ret \<lparr>cells = cs, slen = length f\<rparr>"
    using lenf lcs by (simp add: slice_to_def)
  have h0: "headerLength \<lparr>cells = cs, slen = length f\<rparr> = Ret ((f ! 0 AND 0xf) * 4)"
    using f(2) el [of 0] by (simp add: headerLength_def index_def)
  have uh: "uint ((f ! 0 AND 0xf) * 4) = int hl"
    using hl by (simp add: wireHeaderLength_def)
  have c1: "hl \<le> length f \<Longrightarrow> Consume \<lparr>cells = cs, slen = length f\<rparr> (int hl) =
      Ret (\<lparr>cells = cs, slen = hl\<rparr>, \<lparr>cells = drop hl cs, slen = length f - hl\<rparr>)"
    using lenf lcs Consume_ok [of "int hl" "length f" cs] by simp
  have tp: "9 < hl \<Longrightarrow> hl \<le> length f \<Longrightarrow> transportProtocol \<lparr>cells = cs, slen = hl\<rparr> = Ret (f ! 9)"
    using el [of 9] by (simp add: transportProtocol_def index_def)
  have tpp: "hl \<le> 9 \<Longrightarrow> transportProtocol \<lparr>cells = cs, slen = hl\<rparr> = Panic"
    by (simp add: transportProtocol_def index_def)
  show "length f < 20 \<Longrightarrow> ReadFrom_iter bound b r = Ret None"
    unfolding ReadFrom_iter_def Let_def rd using f(2)
    by (simp add: st NewBigEndianBuffer_def Has_def ipv4MinimumSize_def)
  show "20 \<le> length f \<Longrightarrow> length f < hl \<Longrightarrow> ReadFrom_iter bound b r = Ret None"
    unfolding ReadFrom_iter_def Let_def rd using f(2)
    by (simp add: st h0 uh NewBigEndianBuffer_def Data_def Has_def ipv4MinimumSize_def)
  show "20 \<le> length f \<Longrightarrow> hl \<le> length f \<Longrightarrow> hl \<le> 9 \<Longrightarrow> ReadFrom_iter bound b r = Panic"
    unfolding ReadFrom_iter_def Let_def rd using f(2)
    by (simp add: st h0 uh c1 tpp NewBigEndianBuffer_def Data_def Has_def ipv4MinimumSize_def)
  show "20 \<le> length f \<Longrightarrow> hl \<le> length f \<Longrightarrow> 9 < hl \<Longrightarrow> f ! 9 \<noteq> udpProtocolNumber
           \<Longrightarrow> ReadFrom_iter bound b r = Ret None"
    unfolding ReadFrom_iter_def Let_def rd using f(2)
    by (simp add: st h0 uh c1 tp NewBigEndianBuffer_def Data_def Has_def ipv4MinimumSize_def)
  show "20 \<le> length f \<Longrightarrow> hl \<le> length f \<Longrightarrow> 9 < hl \<Longrightarrow> length f < hl + 8
           \<Longrightarrow> ReadFrom_iter bound b r = Ret None"
    unfolding ReadFrom_iter_def Let_def rd using f(2)
    by (simp add: st h0 uh c1 tp NewBigEndianBuffer_def Data_def Has_def ipv4MinimumSize_def
        udpMinimumSize_def)
qed

lemma ReadFrom_iter_error:
  "rd_err r = Some e \<Longrightarrow> ReadFrom_iter bound b r = Ret (Some (0, b, None, Some e))"
  by (simp add: ReadFrom_iter_def rawReadFrom_def Let_def)

lemma ReadFrom_iter_zero:
  "rd_err r = None \<Longrightarrow> rd_frame r = [] \<Longrightarrow> ReadFrom_iter bound b r = Ret (Some (0, b, None, Some EOF))"
  by (simp add: ReadFrom_iter_def rawReadFrom_def Let_def)

subsection \<open>The call\<close>

lemma ReadFrom_returns:
  assumes "incoming (PacketConn upc) = r # rs" "ReadFrom_iter (boundAddr upc) b r = Ret (Some x)"
  shows "ReadFrom upc b = Some (Ret x, withIncoming upc rs)"
  using assms by (simp add: ReadFrom_def)

lemma ReadFrom_panics:
  assumes "incoming (PacketConn upc) = r # rs" "ReadFrom_iter (boundAddr upc) b r = Panic"
  shows "ReadFrom upc b = Some (Panic, withIncoming upc rs)"
  using assms by (simp add: ReadFrom_def)

lemma ReadFrom_continues:
  assumes "incoming (PacketConn upc) = r # rs" "ReadFrom_iter (boundAddr upc) b r = Ret None"
  shows "ReadFrom upc b = ReadFrom (withIncoming upc rs) b"
  using assms
  by (cases "ReadFrom_loop (boundAddr upc) b rs") (auto simp add: ReadFrom_def withIncoming_def)

text \<open>
  The frames that \<open>ReadFrom\<close> discards, reading on: a frame shorter than 20 bytes, a
  frame whose declared header length exceeds the bytes received, and, when the declared
  header length covers the protocol field, a frame that is not UDP or has fewer than
  8 bytes after its header.
\<close>

lemma ReadFrom_discards:
  assumes "incoming (PacketConn upc) = r # rs"
    and "rd_err r = None"
    and "f = stored b r" "f \<noteq> []"
    and "hl = wireHeaderLength f"
    and "length f < 20 \<or> length f < hl
         \<or> (9 < hl \<and> (f ! 9 \<noteq> udpProtocolNumber \<or> length f < hl + 8))"
  shows "ReadFrom upc b = ReadFrom (withIncoming upc rs) b"
proof -
  note hc = ReadFrom_iter_header_checks [OF assms(2-5), of "boundAddr upc"]
  have "ReadFrom_iter (boundAddr upc) b r = Ret None"
  proof (cases "length f < 20")
    case True
    then show ?thesis by (rule hc(1))
  next
    case long: False
    show ?thesis
    proof (cases "length f < hl")
      case True
      with long show ?thesis by (intro hc(2)) simp_all
    next
      case False
      with long assms(6) have "9 < hl" "f ! 9 \<noteq> udpProtocolNumber \<or> length f < hl + 8"
        by auto
      with long False show ?thesis using hc(4) hc(5) by auto
    qed
  qed
  then show ?thesis by (rule ReadFrom_continues [OF assms(1)])
qed

lemma withIncoming_fields:
  "incoming (PacketConn (withIncoming upc rs)) = rs"
  "boundAddr (withIncoming upc rs) = boundAddr upc"
  "withIncoming (withIncoming upc rs) rs' = withIncoming upc rs'"
  by (simp_all add: withIncoming_def)

subsection \<open>The example frames\<close>

lemma stored_examples:
  "stored buffer16 (received paddedAckFrame) = paddedAckFrame"
  "stored buffer16 (received underfullFrame) = underfullFrame"
  "stored buffer16 (received shortTotalFrame) = shortTotalFrame"
  "stored buffer16 (received zeroIHLFrame) = zeroIHLFrame"
  by (simp_all add: stored_take received_def buffer16_def paddedAckFrame_def underfullFrame_def
      shortTotalFrame_def zeroIHLFrame_def ipHeader_def udpHeader_def dhcpAck_def put16_def)

lemma length_examples:
  "length paddedAckFrame = 42" "length underfullFrame = 36"
  "length shortTotalFrame = 36" "length zeroIHLFrame = 36"
  by (simp_all add: paddedAckFrame_def underfullFrame_def shortTotalFrame_def zeroIHLFrame_def
      ipHeader_def udpHeader_def dhcpAck_def put16_def)

lemma wireHeaderLength_examples:
  "wireHeaderLength paddedAckFrame = 20" "wireHeaderLength underfullFrame = 20"
  "wireHeaderLength shortTotalFrame = 20" "wireHeaderLength zeroIHLFrame = 0"
  by (simp_all add: wireHeaderLength_def paddedAckFrame_def underfullFrame_def
      shortTotalFrame_def zeroIHLFrame_def ipHeader_def)

lemma wireTotalLength_examples:
  "wireTotalLength paddedAckFrame = 36" "wireTotalLength underfullFrame = 44"
  "wireTotalLength shortTotalFrame = 20"
  by (simp_all add: wireTotalLength_def paddedAckFrame_def underfullFrame_def
      shortTotalFrame_def ipHeader_def put16_def be16_def)

lemma protocol_examples:
  "paddedAckFrame ! 9 = udpProtocolNumber" "underfullFrame ! 9 = udpProtocolNumber"
  "shortTotalFrame ! 9 = udpProtocolNumber"
  by (simp_all add: paddedAckFrame_def underfullFrame_def shortTotalFrame_def ipHeader_def
      put16_def udpProtocolNumber_def)

lemma wireDestination_examples:
  "wireDestination paddedAckFrame = \<lparr>IP = Some [255, 255, 255, 255], Port = 68\<rparr>"
  "wireDestination underfullFrame = \<lparr>IP = Some [255, 255, 255, 255], Port = 68\<rparr>"
  "wireDestination shortTotalFrame = \<lparr>IP = Some [255, 255, 255, 255], Port = 68\<rparr>"
  by (simp_all add: wireDestination_def wireHeaderLength_def paddedAckFrame_def
      underfullFrame_def shortTotalFrame_def ipHeader_def put16_def be16_def udpHeader_def)

lemma wireSource_examples:
  "wireSource paddedAckFrame = \<lparr>IP = Some [10, 0, 0, 1], Port = 67\<rparr>"
  "wireSource underfullFrame = \<lparr>IP = Some [10, 0, 0, 1], Port = 67\<rparr>"
  by (simp_all add: wireSource_def wireHeaderLength_def paddedAckFrame_def
      underfullFrame_def ipHeader_def put16_def be16_def udpHeader_def)

lemma connOn_fields:
  "incoming (PacketConn (connOn rs)) = rs"
  "boundAddr (connOn rs) = Some \<lparr>IP = None, Port = 68\<rparr>"
  "withIncoming (connOn rs) rs' = connOn rs'"
  by (simp_all add: connOn_def withIncoming_def)

lemma received_fields: "rd_err (received f) = None" "rd_frame (received f) = f"
  by (simp_all add: received_def)

lemma match68: "udpMatch \<lparr>IP = ip, Port = 68\<rparr> (Some \<lparr>IP = None, Port = 68\<rparr>)"
  by (simp add: udpMatch_def)

subsection \<open>The payload of a frame that passes the checks\<close>



subsection \<open>A frame shorter than it declares\<close>

text \<open>
  C10. If a frame passes the header checks and matches the bound pattern, and its
  declared total length is larger than the number of bytes received, then \<open>ReadFrom\<close>
  returns the count 0 with the sender's address and a nil error, and leaves the
  caller's buffer as it was: the frame is neither discarded nor returned in part.
\<close>

theorem ReadFrom_underfull:
  assumes "incoming (PacketConn upc) = r # rs"
    and "rd_err r = None"
    and "f = stored b r"
    and "20 \<le> length f"
    and "hl = wireHeaderLength f" "9 < hl" "hl + 8 \<le> length f"
    and "f ! 9 = udpProtocolNumber"
    and "udpMatch (wireDestination f) (boundAddr upc)"
    and "length f < wireTotalLength f"
  shows "ReadFrom upc b = Some (Ret (0, b, Some (wireSource f), None), withIncoming upc rs)"
  by (rule ReadFrom_returns [OF assms(1)], rule ReadFrom_iter_underfull [OF assms(2-10)])

theorem ReadFrom_underfull_witness:
  "incoming (PacketConn (connOn [received underfullFrame])) = [received underfullFrame]
   \<and> rd_err (received underfullFrame) = None
   \<and> underfullFrame = stored buffer16 (received underfullFrame)
   \<and> 20 \<le> length underfullFrame
   \<and> 20 = wireHeaderLength underfullFrame \<and> (9::nat) < 20 \<and> 20 + 8 \<le> length underfullFrame
   \<and> underfullFrame ! 9 = udpProtocolNumber
   \<and> udpMatch (wireDestination underfullFrame) (boundAddr (connOn [received underfullFrame]))
   \<and> length underfullFrame < wireTotalLength underfullFrame
   \<and> ReadFrom (connOn [received underfullFrame]) buffer16 =
       Some (Ret (0, buffer16, Some \<lparr>IP = Some [10, 0, 0, 1], Port = 67\<rparr>, None), connOn [])"
proof -
  have h1: "incoming (PacketConn (connOn [received underfullFrame])) = [received underfullFrame]"
    by (simp add: connOn_fields)
  have h2: "rd_err (received underfullFrame) = None" by (simp add: received_fields)
  have h3: "underfullFrame = stored buffer16 (received underfullFrame)"
    by (simp add: stored_examples)
  have h4: "20 \<le> length underfullFrame" by (simp add: length_examples)
  have h5: "20 = wireHeaderLength underfullFrame" by (simp add: wireHeaderLength_examples)
  have h6: "(9::nat) < 20" by simp
  have h7: "20 + 8 \<le> length underfullFrame" by (simp add: length_examples)
  have h8: "underfullFrame ! 9 = udpProtocolNumber" by (simp add: protocol_examples)
  have h9: "udpMatch (wireDestination underfullFrame) (boundAddr (connOn [received underfullFrame]))"
    by (simp add: wireDestination_examples connOn_fields match68)
  have h10: "length underfullFrame < wireTotalLength underfullFrame"
    by (simp add: length_examples wireTotalLength_examples)
  have "ReadFrom (connOn [received underfullFrame]) buffer16 =
       Some (Ret (0, buffer16, Some \<lparr>IP = Some [10, 0, 0, 1], Port = 67\<rparr>, None), connOn [])"
    using ReadFrom_underfull [OF h1 h2 h3 h4 h5 h6 h7 h8 h9 h10]
    by (simp add: wireSource_examples connOn_fields)
  with h1 h2 h3 h4 h5 h6 h7 h8 h9 h10 show ?thesis by blast
qed

subsection \<open>A total length that leaves no room for the UDP header\<close>

text \<open>
  C5. The claim is that a frame whose computed payload length is negative does not make
  \<open>ReadFrom\<close> panic. It does: the frame below passes every header check and matches
  the bound pattern, its total length equals its header length, the payload length is
  -8, and consuming -8 bytes from the buffer is a slice expression out of range.
\<close>

theorem ReadFrom_short_total_panics:
  "ReadFrom (connOn (received shortTotalFrame # rs)) buffer16 = Some (Panic, connOn rs)"
proof -
  have "ReadFrom_iter (boundAddr (connOn (received shortTotalFrame # rs))) buffer16
      (received shortTotalFrame) = Panic"
  proof (rule ReadFrom_iter_negative [where f = shortTotalFrame and hl = 20])
    show "udpMatch (wireDestination shortTotalFrame)
        (boundAddr (connOn (received shortTotalFrame # rs)))"
      by (simp add: wireDestination_examples connOn_fields match68)
  qed (simp_all add: received_fields stored_examples length_examples
      wireHeaderLength_examples wireTotalLength_examples protocol_examples)
  then show ?thesis
    using ReadFrom_panics [of "connOn (received shortTotalFrame # rs)" "received shortTotalFrame" rs]
    by (simp add: connOn_fields)
qed

subsection \<open>A declared header length below the minimum\<close>

text \<open>
  C6. The claim is that a frame that is too short, or whose declared header length
  exceeds the bytes received, or whose protocol is not UDP, or that lacks the UDP
  header is discarded without a crash. \<open>ReadFrom\<close> checks the declared header length
  against the bytes received only, not against the minimum of 20: the TCP frame
  below declares a header of 0 bytes, the header view is then the empty slice, and
  reading its protocol field panics. Lemma \<open>ReadFrom_discards\<close> has the frames that are
  discarded as the claim says.
\<close>

theorem ReadFrom_zero_header_length_panics:
  "ReadFrom (connOn (received zeroIHLFrame # rs)) buffer16 = Some (Panic, connOn rs)"
proof -
  have "ReadFrom_iter (boundAddr (connOn (received zeroIHLFrame # rs))) buffer16
      (received zeroIHLFrame) = Panic"
  proof (rule ReadFrom_iter_header_checks(3) [where f = zeroIHLFrame and hl = 0])
    have "length zeroIHLFrame \<noteq> 0" by (simp add: length_examples)
    then show "zeroIHLFrame \<noteq> []" by auto
  qed (simp_all add: received_fields stored_examples length_examples wireHeaderLength_examples)
  then show ?thesis
    using ReadFrom_panics [of "connOn (received zeroIHLFrame # rs)" "received zeroIHLFrame" rs]
    by (simp add: connOn_fields)
qed

subsection \<open>End of stream and read errors\<close>

text \<open>
  C7. When the read of the raw socket returns zero bytes and no error, \<open>ReadFrom\<close>
  returns \<open>io.EOF\<close>; when the read returns an error, \<open>ReadFrom\<close> returns that error.
  In both cases the count is 0, there is no sender, the caller's buffer is untouched,
  and exactly one read was taken from the raw socket: nothing is retried.
\<close>

theorem ReadFrom_end_of_stream:
  "ReadFrom (withIncoming upc (\<lparr>rd_frame = [], rd_err = None\<rparr> # rs)) b
     = Some (Ret (0, b, None, Some EOF), withIncoming upc rs)
   \<and> ReadFrom (withIncoming upc (\<lparr>rd_frame = fr, rd_err = Some e\<rparr> # rs)) b
     = Some (Ret (0, b, None, Some e), withIncoming upc rs)"
proof
  show "ReadFrom (withIncoming upc (\<lparr>rd_frame = [], rd_err = None\<rparr> # rs)) b
     = Some (Ret (0, b, None, Some EOF), withIncoming upc rs)"
    using ReadFrom_returns [of "withIncoming upc (\<lparr>rd_frame = [], rd_err = None\<rparr> # rs)"
        "\<lparr>rd_frame = [], rd_err = None\<rparr>" rs b "(0, b, None, Some EOF)"]
    by (simp add: withIncoming_fields ReadFrom_iter_zero)
  show "ReadFrom (withIncoming upc (\<lparr>rd_frame = fr, rd_err = Some e\<rparr> # rs)) b
     = Some (Ret (0, b, None, Some e), withIncoming upc rs)"
    using ReadFrom_returns [of "withIncoming upc (\<lparr>rd_frame = fr, rd_err = Some e\<rparr> # rs)"
        "\<lparr>rd_frame = fr, rd_err = Some e\<rparr>" rs b "(0, b, None, Some e)"]
    by (simp add: withIncoming_fields ReadFrom_iter_error)
qed

section \<open>Address resolution\<close>

lemma neighLoop_find:
  "neighLoop ip ns =
     map_option Neigh_HardwareAddr
       (find (\<lambda>n. Equal ip (Neigh_IP n) \<and> Neigh_HardwareAddr n \<noteq> None) ns)"
  by (induction ns) auto

lemma arpResolve_no_route:
  "RouteGet env ip = Inr [] \<Longrightarrow> arpResolve env ip = ((None, Some (ErrNoRoute ip)), [CallRouteGet ip])"
  by (simp add: arpResolve_def)

lemma arpResolve_exchange:
  "RouteGet env ip = Inr (rt # rts) \<Longrightarrow> InterfaceByIndex env (LinkIndex rt) = Inr ifc \<Longrightarrow>
   Dial env ifc = None \<Longrightarrow>
   arpResolve env ip =
     (Resolve env ifc ip,
      [CallRouteGet ip, CallInterfaceByIndex (LinkIndex rt), CallDial ifc, CallResolve ifc ip])"
  by (simp add: arpResolve_def)

lemma getHwAddr_cached:
  assumes "NeighListExecute env \<lparr>Family = FAMILY_V4, State = NUD_REACHABLE\<rparr> = Inr ns"
    and "\<exists>n \<in> set ns. Equal ip (Neigh_IP n) \<and> Neigh_HardwareAddr n \<noteq> None"
  shows "\<exists>n. find (\<lambda>n. Equal ip (Neigh_IP n) \<and> Neigh_HardwareAddr n \<noteq> None) ns = Some n
     \<and> getHwAddr env ip
         = ((Neigh_HardwareAddr n, None),
            [CallNeighListExecute \<lparr>Family = FAMILY_V4, State = NUD_REACHABLE\<rparr>])"
proof -
  from assms(2) obtain n where
    n: "find (\<lambda>n. Equal ip (Neigh_IP n) \<and> Neigh_HardwareAddr n \<noteq> None) ns = Some n"
    by (cases "find (\<lambda>n. Equal ip (Neigh_IP n) \<and> Neigh_HardwareAddr n \<noteq> None) ns")
      (auto simp add: find_None_iff)
  then have "neighLoop ip ns = Some (Neigh_HardwareAddr n)" by (simp add: neighLoop_find)
  with assms(1) n show ?thesis by (simp add: getHwAddr_def Let_def)
qed

lemma getHwAddr_miss:
  assumes "NeighListExecute env \<lparr>Family = FAMILY_V4, State = NUD_REACHABLE\<rparr> = Inr ns"
    and "\<forall>n \<in> set ns. \<not> (Equal ip (Neigh_IP n) \<and> Neigh_HardwareAddr n \<noteq> None)"
  shows "getHwAddr env ip =
     (fst (arpResolve env ip),
      CallNeighListExecute \<lparr>Family = FAMILY_V4, State = NUD_REACHABLE\<rparr> # snd (arpResolve env ip))"
proof -
  have "find (\<lambda>n. Equal ip (Neigh_IP n) \<and> Neigh_HardwareAddr n \<noteq> None) ns = None"
    using assms(2) by (simp add: find_None_iff)
  then have "neighLoop ip ns = None" by (simp add: neighLoop_find)
  with assms(1) show ?thesis by (simp add: getHwAddr_def Let_def split_beta)
qed

lemma Equal_examples:
  "Equal peerIP peerIP" "\<not> Equal peerIP (Some [10, 0, 0, 7])"
  by (simp_all add: Equal_def peerIP_def ip_bytes_def)

lemma env_fields:
  "NeighListExecute envCached m
     = Inr (otherNeighbours @ [\<lparr>Neigh_IP = peerIP, Neigh_HardwareAddr = peerMac\<rparr>])"
  "NeighListExecute envNoRoute m = Inr otherNeighbours"
  "RouteGet envNoRoute ip = Inr []"
  "NeighListExecute envArp m = Inr otherNeighbours"
  "RouteGet envArp ip = Inr [\<lparr>LinkIndex = 2\<rparr>]"
  "InterfaceByIndex envArp 2 = Inr eth0"
  "Dial envArp ifc = None"
  "Resolve envArp ifc ip = (peerMac, None)"
  by (simp_all add: envCached_def envNoRoute_def envArp_def)

lemma otherNeighbours_miss:
  "\<forall>n \<in> set otherNeighbours. \<not> (Equal peerIP (Neigh_IP n) \<and> Neigh_HardwareAddr n \<noteq> None)"
  by (simp add: otherNeighbours_def Equal_examples)

lemma cached_hit:
  "find (\<lambda>n. Equal peerIP (Neigh_IP n) \<and> Neigh_HardwareAddr n \<noteq> None)
     (otherNeighbours @ [\<lparr>Neigh_IP = peerIP, Neigh_HardwareAddr = peerMac\<rparr>])
   = Some \<lparr>Neigh_IP = peerIP, Neigh_HardwareAddr = peerMac\<rparr>"
  by (simp add: otherNeighbours_def Equal_examples peerMac_def)

lemma getHwAddr_examples:
  "getHwAddr envNoRoute peerIP
     = ((None, Some (ErrNoRoute peerIP)),
        [CallNeighListExecute \<lparr>Family = FAMILY_V4, State = NUD_REACHABLE\<rparr>, CallRouteGet peerIP])"
  "getHwAddr envArp peerIP
     = ((peerMac, None),
        [CallNeighListExecute \<lparr>Family = FAMILY_V4, State = NUD_REACHABLE\<rparr>, CallRouteGet peerIP,
         CallInterfaceByIndex 2, CallDial eth0, CallResolve eth0 peerIP])"
proof -
  show "getHwAddr envNoRoute peerIP
     = ((None, Some (ErrNoRoute peerIP)),
        [CallNeighListExecute \<lparr>Family = FAMILY_V4, State = NUD_REACHABLE\<rparr>, CallRouteGet peerIP])"
    using getHwAddr_miss [of envNoRoute otherNeighbours peerIP] otherNeighbours_miss
    by (simp add: env_fields arpResolve_no_route)
  show "getHwAddr envArp peerIP
     = ((peerMac, None),
        [CallNeighListExecute \<lparr>Family = FAMILY_V4, State = NUD_REACHABLE\<rparr>, CallRouteGet peerIP,
         CallInterfaceByIndex 2, CallDial eth0, CallResolve eth0 peerIP])"
    using getHwAddr_miss [of envArp otherNeighbours peerIP] otherNeighbours_miss
      arpResolve_exchange [of envArp peerIP "\<lparr>LinkIndex = 2\<rparr>" "[]" eth0]
    by (simp add: env_fields)
qed

lemma peer_fields: "IP peer = peerIP" "Port peer = 67"
  by (simp_all add: peer_def)

text \<open>
  C3. \<open>getHwAddr\<close> first lists the kernel neighbour table for IPv4 and the reachable
  state. If the list holds an entry whose IP equals the target and whose link address
  is present, the link address of the first such entry is returned with no error, and
  the listing is the only call made: no route lookup, no ARP session, no exchange.
  Otherwise the route to the target is looked up; with no route the result is the
  no-route error and nothing further is called; with a route, the interface of the first
  route's link index is looked up, an ARP session is opened on it, and the result is
  what the exchange for the target returns, its link address or its error. (A link
  address is a fixed-width address or absent; "non-empty" is "not nil" here.)
\<close>

theorem getHwAddr_algorithm:
  "(NeighListExecute env \<lparr>Family = FAMILY_V4, State = NUD_REACHABLE\<rparr> = Inr ns
      \<and> (\<exists>n \<in> set ns. Equal ip (Neigh_IP n) \<and> Neigh_HardwareAddr n \<noteq> None) \<longrightarrow>
      (\<exists>n. find (\<lambda>n. Equal ip (Neigh_IP n) \<and> Neigh_HardwareAddr n \<noteq> None) ns = Some n
         \<and> getHwAddr env ip
             = ((Neigh_HardwareAddr n, None),
                [CallNeighListExecute \<lparr>Family = FAMILY_V4, State = NUD_REACHABLE\<rparr>])))
   \<and> (NeighListExecute env' \<lparr>Family = FAMILY_V4, State = NUD_REACHABLE\<rparr> = Inr ns'
      \<and> (\<forall>n \<in> set ns'. \<not> (Equal ip (Neigh_IP n) \<and> Neigh_HardwareAddr n \<noteq> None))
      \<and> RouteGet env' ip = Inr [] \<longrightarrow>
      getHwAddr env' ip
        = ((None, Some (ErrNoRoute ip)),
           [CallNeighListExecute \<lparr>Family = FAMILY_V4, State = NUD_REACHABLE\<rparr>,
            CallRouteGet ip]))
   \<and> (NeighListExecute env'' \<lparr>Family = FAMILY_V4, State = NUD_REACHABLE\<rparr> = Inr ns''
      \<and> (\<forall>n \<in> set ns''. \<not> (Equal ip (Neigh_IP n) \<and> Neigh_HardwareAddr n \<noteq> None))
      \<and> RouteGet env'' ip = Inr (rt # rts)
      \<and> InterfaceByIndex env'' (LinkIndex rt) = Inr ifc
      \<and> Dial env'' ifc = None \<longrightarrow>
      getHwAddr env'' ip
        = (Resolve env'' ifc ip,
           [CallNeighListExecute \<lparr>Family = FAMILY_V4, State = NUD_REACHABLE\<rparr>,
            CallRouteGet ip, CallInterfaceByIndex (LinkIndex rt), CallDial ifc,
            CallResolve ifc ip]))"
proof (intro conjI impI)
  assume "NeighListExecute env \<lparr>Family = FAMILY_V4, State = NUD_REACHABLE\<rparr> = Inr ns
      \<and> (\<exists>n \<in> set ns. Equal ip (Neigh_IP n) \<and> Neigh_HardwareAddr n \<noteq> None)"
  then show "\<exists>n. find (\<lambda>n. Equal ip (Neigh_IP n) \<and> Neigh_HardwareAddr n \<noteq> None) ns = Some n
         \<and> getHwAddr env ip
             = ((Neigh_HardwareAddr n, None),
                [CallNeighListExecute \<lparr>Family = FAMILY_V4, State = NUD_REACHABLE\<rparr>])"
    using getHwAddr_cached [of env ns ip] by blast
next
  assume a: "NeighListExecute env' \<lparr>Family = FAMILY_V4, State = NUD_REACHABLE\<rparr> = Inr ns'
      \<and> (\<forall>n \<in> set ns'. \<not> (Equal ip (Neigh_IP n) \<and> Neigh_HardwareAddr n \<noteq> None))
      \<and> RouteGet env' ip = Inr []"
  then have "arpResolve env' ip = ((None, Some (ErrNoRoute ip)), [CallRouteGet ip])"
    by (simp add: arpResolve_no_route)
  with a show "getHwAddr env' ip
        = ((None, Some (ErrNoRoute ip)),
           [CallNeighListExecute \<lparr>Family = FAMILY_V4, State = NUD_REACHABLE\<rparr>,
            CallRouteGet ip])"
    using getHwAddr_miss [of env' ns' ip] by simp
next
  assume a: "NeighListExecute env'' \<lparr>Family = FAMILY_V4, State = NUD_REACHABLE\<rparr> = Inr ns''
      \<and> (\<forall>n \<in> set ns''. \<not> (Equal ip (Neigh_IP n) \<and> Neigh_HardwareAddr n \<noteq> None))
      \<and> RouteGet env'' ip = Inr (rt # rts)
      \<and> InterfaceByIndex env'' (LinkIndex rt) = Inr ifc
      \<and> Dial env'' ifc = None"
  then have "arpResolve env'' ip =
     (Resolve env'' ifc ip,
      [CallRouteGet ip, CallInterfaceByIndex (LinkIndex rt), CallDial ifc, CallResolve ifc ip])"
    by (simp add: arpResolve_exchange)
  with a show "getHwAddr env'' ip
        = (Resolve env'' ifc ip,
           [CallNeighListExecute \<lparr>Family = FAMILY_V4, State = NUD_REACHABLE\<rparr>,
            CallRouteGet ip, CallInterfaceByIndex (LinkIndex rt), CallDial ifc,
            CallResolve ifc ip])"
    using getHwAddr_miss [of env'' ns'' ip] by simp
qed

theorem getHwAddr_algorithm_witness:
  "NeighListExecute envCached \<lparr>Family = FAMILY_V4, State = NUD_REACHABLE\<rparr>
     = Inr (otherNeighbours @ [\<lparr>Neigh_IP = peerIP, Neigh_HardwareAddr = peerMac\<rparr>])
   \<and> (\<exists>n \<in> set (otherNeighbours @ [\<lparr>Neigh_IP = peerIP, Neigh_HardwareAddr = peerMac\<rparr>]).
         Equal peerIP (Neigh_IP n) \<and> Neigh_HardwareAddr n \<noteq> None)
   \<and> getHwAddr envCached peerIP
       = ((peerMac, None), [CallNeighListExecute \<lparr>Family = FAMILY_V4, State = NUD_REACHABLE\<rparr>])
   \<and> NeighListExecute envNoRoute \<lparr>Family = FAMILY_V4, State = NUD_REACHABLE\<rparr> = Inr otherNeighbours
   \<and> list_all (\<lambda>n. \<not> (Equal peerIP (Neigh_IP n) \<and> Neigh_HardwareAddr n \<noteq> None))
         otherNeighbours
   \<and> RouteGet envNoRoute peerIP = Inr []
   \<and> getHwAddr envNoRoute peerIP
       = ((None, Some (ErrNoRoute peerIP)),
          [CallNeighListExecute \<lparr>Family = FAMILY_V4, State = NUD_REACHABLE\<rparr>, CallRouteGet peerIP])
   \<and> NeighListExecute envArp \<lparr>Family = FAMILY_V4, State = NUD_REACHABLE\<rparr> = Inr otherNeighbours
   \<and> RouteGet envArp peerIP = Inr [\<lparr>LinkIndex = 2\<rparr>]
   \<and> InterfaceByIndex envArp (LinkIndex \<lparr>LinkIndex = 2\<rparr>) = Inr eth0
   \<and> Dial envArp eth0 = None
   \<and> getHwAddr envArp peerIP
       = ((peerMac, None),
          [CallNeighListExecute \<lparr>Family = FAMILY_V4, State = NUD_REACHABLE\<rparr>, CallRouteGet peerIP,
           CallInterfaceByIndex 2, CallDial eth0, CallResolve eth0 peerIP])"
proof -
  let ?reach = "\<lparr>Family = FAMILY_V4, State = NUD_REACHABLE\<rparr>"
  let ?ns = "otherNeighbours @ [\<lparr>Neigh_IP = peerIP, Neigh_HardwareAddr = peerMac\<rparr>]"
  note T = getHwAddr_algorithm [of envCached ?ns peerIP envNoRoute otherNeighbours
      envArp otherNeighbours "\<lparr>LinkIndex = 2\<rparr>" "[]" eth0]
  have a1: "NeighListExecute envCached ?reach = Inr ?ns" by (simp add: env_fields)
  have a2: "\<exists>n \<in> set ?ns. Equal peerIP (Neigh_IP n) \<and> Neigh_HardwareAddr n \<noteq> None"
    by (simp add: Equal_examples peerMac_def)
  from T a1 a2 obtain n where
    n: "find (\<lambda>n. Equal peerIP (Neigh_IP n) \<and> Neigh_HardwareAddr n \<noteq> None) ?ns = Some n"
      "getHwAddr envCached peerIP = ((Neigh_HardwareAddr n, None), [CallNeighListExecute ?reach])"
    by blast
  from n(1) [unfolded cached_hit]
  have "n = \<lparr>Neigh_IP = peerIP, Neigh_HardwareAddr = peerMac\<rparr>"
    by simp
  with n(2) have c1: "getHwAddr envCached peerIP = ((peerMac, None), [CallNeighListExecute ?reach])"
    by simp
  have b1: "NeighListExecute envNoRoute ?reach = Inr otherNeighbours" by (simp add: env_fields)
  note b2 = otherNeighbours_miss
  have b3: "RouteGet envNoRoute peerIP = Inr []" by (simp add: env_fields)
  from T b1 b2 b3 have c2: "getHwAddr envNoRoute peerIP
       = ((None, Some (ErrNoRoute peerIP)), [CallNeighListExecute ?reach, CallRouteGet peerIP])"
    by blast
  have d1: "NeighListExecute envArp ?reach = Inr otherNeighbours" by (simp add: env_fields)
  have d3: "RouteGet envArp peerIP = Inr [\<lparr>LinkIndex = 2\<rparr>]" by (simp add: env_fields)
  have d4: "InterfaceByIndex envArp (LinkIndex \<lparr>LinkIndex = 2\<rparr>) = Inr eth0"
    by (simp add: env_fields)
  have d5: "Dial envArp eth0 = None" by (simp add: env_fields)
  from T d1 b2 d3 d4 d5 have "getHwAddr envArp peerIP
       = (Resolve envArp eth0 peerIP,
          [CallNeighListExecute ?reach, CallRouteGet peerIP,
           CallInterfaceByIndex (LinkIndex \<lparr>LinkIndex = 2\<rparr>), CallDial eth0,
           CallResolve eth0 peerIP])"
    by blast
  then have c3: "getHwAddr envArp peerIP
       = ((peerMac, None),
          [CallNeighListExecute ?reach, CallRouteGet peerIP,
           CallInterfaceByIndex 2, CallDial eth0, CallResolve eth0 peerIP])"
    by (simp add: env_fields)
  have b2': "list_all (\<lambda>n. \<not> (Equal peerIP (Neigh_IP n) \<and> Neigh_HardwareAddr n \<noteq> None))
      otherNeighbours"
    using b2 by (simp add: list_all_iff)
  from a1 a2 c1 b1 b2' b3 c2 d1 d3 d4 d5 c3 show ?thesis by blast
qed

section \<open>The send path\<close>

lemma length_addr4: "length (addr4 ip) = 4"
  by (simp add: addr4_def Let_def)

lemma length_udp4pkt: "length (udp4pkt b dst src) = 20 + 8 + length b"
  by (simp add: udp4pkt_def Let_def put16_def length_addr4)

lemma Broadcast_WriteTo_UDPAddr:
  "BroadcastRawUDPConn_WriteTo upc b (PtrUDPAddr dst) =
     (writeResult (PacketConn upc) (udp4pkt b dst (boundAddr upc)) BroadcastMac,
      afterWrite upc (udp4pkt b dst (boundAddr upc)) BroadcastMac)"
  by (simp add: BroadcastRawUDPConn_WriteTo_def rawWriteTo_def afterWrite_def Let_def)

lemma Unicast_WriteTo_resolved:
  "getHwAddr env (IP dst) = ((mac, None), calls) \<Longrightarrow>
   UnicastRawUDPConn_WriteTo env upc b (PtrUDPAddr dst) =
     ((writeResult (PacketConn upc) (udp4pkt b dst (boundAddr upc)) mac,
       afterWrite upc (udp4pkt b dst (boundAddr upc)) mac), calls)"
  by (simp add: UnicastRawUDPConn_WriteTo_def rawWriteTo_def afterWrite_def Let_def)

lemma Unicast_WriteTo_unresolved:
  "getHwAddr env (IP dst) = ((mac, Some e), calls) \<Longrightarrow>
   UnicastRawUDPConn_WriteTo env upc b (PtrUDPAddr dst) = (((0, Some ErrHWAddrNotFound), upc), calls)"
  by (simp add: UnicastRawUDPConn_WriteTo_def Let_def)

subsection \<open>A destination that is not a UDP address\<close>

text \<open>
  C8. In both modes \<open>WriteTo\<close> with a destination that is not a \<open>*net.UDPAddr\<close> returns
  the count 0 and \<open>ErrUDPAddrIsRequired\<close>; the connection is as before, so nothing was
  handed to the raw socket, and the unicast mode made no call to the resolver.
\<close>

theorem WriteTo_requires_UDPAddr:
  "BroadcastRawUDPConn_WriteTo upc b OtherAddr = ((0, Some ErrUDPAddrIsRequired), upc)
   \<and> UnicastRawUDPConn_WriteTo env upc b OtherAddr = (((0, Some ErrUDPAddrIsRequired), upc), [])"
  by (simp add: BroadcastRawUDPConn_WriteTo_def UnicastRawUDPConn_WriteTo_def)

subsection \<open>Unicast: resolution before the write\<close>

text \<open>
  C4. On a connection with a bound address, unicast \<open>WriteTo\<close> with a
  \<open>*net.UDPAddr\<close> destination resolves the destination's IP with \<open>getHwAddr\<close>. If that
  returns an error, \<open>WriteTo\<close> returns the count 0 and \<open>ErrHWAddrNotFound\<close> and the
  connection is as before: nothing was handed to the raw socket, to the broadcast
  address or otherwise. If it returns a link address, the framed packet is handed to the
  raw socket for that link address, once, and the socket's answer is returned.
\<close>

theorem Unicast_WriteTo_resolves_first:
  assumes "boundAddr upc = Some src"
  shows "(getHwAddr env (IP dst) = ((mac, Some e), calls) \<longrightarrow>
            UnicastRawUDPConn_WriteTo env upc b (PtrUDPAddr dst)
              = (((0, Some ErrHWAddrNotFound), upc), calls))
       \<and> (getHwAddr env' (IP dst) = ((mac', None), calls') \<longrightarrow>
            UnicastRawUDPConn_WriteTo env' upc b (PtrUDPAddr dst)
              = ((writeResult (PacketConn upc) (udp4pkt b dst (Some src)) mac',
                  afterWrite upc (udp4pkt b dst (Some src)) mac'), calls'))"
  using assms Unicast_WriteTo_resolved [of env' dst mac' calls' upc b]
    Unicast_WriteTo_unresolved [of env dst mac e calls upc b]
  by simp

theorem Unicast_WriteTo_resolves_first_witness:
  "boundAddr (connOn []) = Some \<lparr>IP = None, Port = 68\<rparr>
   \<and> getHwAddr envNoRoute (IP peer)
       = ((None, Some (ErrNoRoute peerIP)),
          [CallNeighListExecute \<lparr>Family = FAMILY_V4, State = NUD_REACHABLE\<rparr>, CallRouteGet peerIP])
   \<and> UnicastRawUDPConn_WriteTo envNoRoute (connOn []) dhcpAck (PtrUDPAddr peer)
       = (((0, Some ErrHWAddrNotFound), connOn []),
          [CallNeighListExecute \<lparr>Family = FAMILY_V4, State = NUD_REACHABLE\<rparr>, CallRouteGet peerIP])
   \<and> getHwAddr envArp (IP peer)
       = ((peerMac, None),
          [CallNeighListExecute \<lparr>Family = FAMILY_V4, State = NUD_REACHABLE\<rparr>, CallRouteGet peerIP,
           CallInterfaceByIndex 2, CallDial eth0, CallResolve eth0 peerIP])
   \<and> UnicastRawUDPConn_WriteTo envArp (connOn []) dhcpAck (PtrUDPAddr peer)
       = ((writeResult (PacketConn (connOn []))
             (udp4pkt dhcpAck peer (Some \<lparr>IP = None, Port = 68\<rparr>)) peerMac,
           afterWrite (connOn []) (udp4pkt dhcpAck peer (Some \<lparr>IP = None, Port = 68\<rparr>)) peerMac),
          [CallNeighListExecute \<lparr>Family = FAMILY_V4, State = NUD_REACHABLE\<rparr>, CallRouteGet peerIP,
           CallInterfaceByIndex 2, CallDial eth0, CallResolve eth0 peerIP])"
  using Unicast_WriteTo_resolves_first [of "connOn []" "\<lparr>IP = None, Port = 68\<rparr>"
      envNoRoute peer None "ErrNoRoute peerIP"
      "[CallNeighListExecute \<lparr>Family = FAMILY_V4, State = NUD_REACHABLE\<rparr>, CallRouteGet peerIP]"
      dhcpAck envArp peerMac
      "[CallNeighListExecute \<lparr>Family = FAMILY_V4, State = NUD_REACHABLE\<rparr>, CallRouteGet peerIP,
           CallInterfaceByIndex 2, CallDial eth0, CallResolve eth0 peerIP]"]
  by (simp add: connOn_fields peer_fields getHwAddr_examples)

subsection \<open>The returned count\<close>

text \<open>
  C9. On a connection with a bound address, the packet that \<open>WriteTo\<close> hands to the raw
  socket is 28 bytes longer than the payload (20 of IP header, 8 of UDP header), and
  what \<open>WriteTo\<close> returns, in broadcast mode and in unicast mode after a successful
  resolution, is what the raw socket answers for that packet. So when the socket
  reports the whole packet as written, the returned count is the payload length plus 28.
\<close>

theorem WriteTo_returns_frame_count:
  assumes "boundAddr upc = Some src"
    and "packet = udp4pkt b dst (Some src)"
  shows "length packet = 20 + 8 + length b
       \<and> fst (BroadcastRawUDPConn_WriteTo upc b (PtrUDPAddr dst))
            = writeResult (PacketConn upc) packet BroadcastMac
       \<and> (writeResult (PacketConn upc) packet BroadcastMac = (int (length packet), None) \<longrightarrow>
            fst (BroadcastRawUDPConn_WriteTo upc b (PtrUDPAddr dst)) = (int (length b) + 28, None))
       \<and> (getHwAddr env (IP dst) = ((mac, None), calls) \<longrightarrow>
            fst (fst (UnicastRawUDPConn_WriteTo env upc b (PtrUDPAddr dst)))
              = writeResult (PacketConn upc) packet mac)
       \<and> (getHwAddr env (IP dst) = ((mac, None), calls)
            \<and> writeResult (PacketConn upc) packet mac = (int (length packet), None) \<longrightarrow>
            fst (fst (UnicastRawUDPConn_WriteTo env upc b (PtrUDPAddr dst)))
              = (int (length b) + 28, None))"
  using assms Unicast_WriteTo_resolved [of env dst mac calls upc b]
  by (simp add: Broadcast_WriteTo_UDPAddr length_udp4pkt)

theorem WriteTo_returns_frame_count_witness:
  "boundAddr (connOn []) = Some \<lparr>IP = None, Port = 68\<rparr>
   \<and> length (udp4pkt dhcpAck peer (Some \<lparr>IP = None, Port = 68\<rparr>)) = 20 + 8 + length dhcpAck
   \<and> writeResult (PacketConn (connOn [])) (udp4pkt dhcpAck peer (Some \<lparr>IP = None, Port = 68\<rparr>))
        BroadcastMac
       = (int (length (udp4pkt dhcpAck peer (Some \<lparr>IP = None, Port = 68\<rparr>))), None)
   \<and> fst (BroadcastRawUDPConn_WriteTo (connOn []) dhcpAck (PtrUDPAddr peer)) = (36, None)
   \<and> getHwAddr envArp (IP peer)
       = ((peerMac, None),
          [CallNeighListExecute \<lparr>Family = FAMILY_V4, State = NUD_REACHABLE\<rparr>, CallRouteGet peerIP,
           CallInterfaceByIndex 2, CallDial eth0, CallResolve eth0 peerIP])
   \<and> writeResult (PacketConn (connOn [])) (udp4pkt dhcpAck peer (Some \<lparr>IP = None, Port = 68\<rparr>))
        peerMac
       = (int (length (udp4pkt dhcpAck peer (Some \<lparr>IP = None, Port = 68\<rparr>))), None)
   \<and> fst (fst (UnicastRawUDPConn_WriteTo envArp (connOn []) dhcpAck (PtrUDPAddr peer))) = (36, None)"
proof -
  have w: "writeResult (PacketConn (connOn [])) p a = (int (length p), None)" for p a
    by (simp add: connOn_def)
  have l: "length dhcpAck = 8" by (simp add: dhcpAck_def)
  show ?thesis
    using WriteTo_returns_frame_count [of "connOn []" "\<lparr>IP = None, Port = 68\<rparr>"
        "udp4pkt dhcpAck peer (Some \<lparr>IP = None, Port = 68\<rparr>)" dhcpAck peer envArp peerMac
        "[CallNeighListExecute \<lparr>Family = FAMILY_V4, State = NUD_REACHABLE\<rparr>, CallRouteGet peerIP,
           CallInterfaceByIndex 2, CallDial eth0, CallResolve eth0 peerIP]"]
    by (simp add: connOn_fields peer_fields getHwAddr_examples w l)
qed

end
